theory Spec2Isabelle
  imports Main "HOL-Library.AList"
begin

section \<open>Values, users and requests\<close>

text \<open>
  The listing app (\<^verbatim>\<open>listings/views.py\<close>, \<^verbatim>\<open>listings/urls.py\<close>) is three
  \<^verbatim>\<open>ModelViewSet\<close> subclasses, one permission class and one router registration. The
  view sets inherit their request handling from the REST framework; the part of the framework
  that the view sets run through (dispatch, permission checks, the create, retrieve, update
  and destroy mixins, \<^verbatim>\<open>serializer.save\<close>, the router's routes) is written out here
  as the framework defines it, and the code of \<^verbatim>\<open>views.py\<close> and \<^verbatim>\<open>urls.py\<close>
  is embedded on top of it, under the names it has in the source.

  \<^verbatim>\<open>request.user\<close> is a user object: a saved \<^verbatim>\<open>User\<close> row, compared by primary key,
  or Django's \<^verbatim>\<open>AnonymousUser\<close> for a caller that no authenticator recognised.
\<close>

datatype user = AnonymousUser | User nat

fun is_authenticated :: "user \<Rightarrow> bool" where
  "is_authenticated AnonymousUser = False"
| "is_authenticated (User _) = True"

text \<open>Python values that occur as attributes of model instances and in request payloads.\<close>

datatype pyval = PyNone | PyInt int | PyStr string | PyUser user

text \<open>
  A Python dict with string keys (a request payload, \<^verbatim>\<open>validated_data\<close>, keyword
  arguments), and also the attributes of an object: insertion-ordered, one entry per key.
\<close>

type_synonym pydict = "(string \<times> pyval) list"

datatype error =
    AttributeError
  | NotAuthenticated
  | PermissionDenied
  | Http404
  | ValidationError
  | MethodNotAllowed

text \<open>
  \<^verbatim>\<open>getattr(obj, name[, default])\<close>: without a default a missing attribute raises
  \<^verbatim>\<open>AttributeError\<close>, with a default it returns the default.
\<close>

definition getattr :: "pydict \<Rightarrow> string \<Rightarrow> pyval option \<Rightarrow> error + pyval" where
  "getattr obj name dflt =
     (case map_of obj name of
        Some v \<Rightarrow> Inr v
      | None \<Rightarrow> (case dflt of Some d \<Rightarrow> Inr d | None \<Rightarrow> Inl AttributeError))"

datatype http_method = GET | HEAD | OPTIONS | POST | PUT | PATCH | DELETE | TRACE

text \<open>\<^verbatim>\<open>rest_framework.permissions.SAFE_METHODS = ('GET', 'HEAD', 'OPTIONS')\<close>\<close>

definition SAFE_METHODS :: "http_method list" where
  "SAFE_METHODS = [GET, HEAD, OPTIONS]"

datatype authenticator = SessionAuthentication | BasicAuthentication

text \<open>
  The framework's \<^verbatim>\<open>Request\<close> as the view sees it after authentication has run:
  \<^verbatim>\<open>successful_authenticator\<close> is the authenticator that recognised the caller, and
  \<^verbatim>\<open>None\<close> when none did (then \<^verbatim>\<open>user\<close> is \<^verbatim>\<open>AnonymousUser\<close>);
  \<open>request_method\<close> is \<^verbatim>\<open>request.method\<close>.
\<close>

record request =
  request_method :: http_method
  user :: user
  successful_authenticator :: "authenticator option"
  data :: pydict

datatype viewset = ListingViewSet | BookingViewSet | ReviewViewSet

section \<open>Permissions\<close>

text \<open>\<^verbatim>\<open>views.py\<close>, lines 10 to 16: \<^verbatim>\<open>IsHostOrReadOnly.has_object_permission\<close>.\<close>

definition IsHostOrReadOnly_has_object_permission ::
    "request \<Rightarrow> viewset \<Rightarrow> pydict \<Rightarrow> error + bool" where
  "IsHostOrReadOnly_has_object_permission req view obj =
     (if request_method req \<in> set SAFE_METHODS then Inr True
      else (case getattr obj ''host'' (Some PyNone) of
              Inl e \<Rightarrow> Inl e
            | Inr h \<Rightarrow> Inr (h = PyUser (user req))))"

datatype permission = IsAuthenticated | IsAuthenticatedOrReadOnly | IsHostOrReadOnly

text \<open>
  \<^verbatim>\<open>has_permission\<close> of the framework's \<^verbatim>\<open>IsAuthenticated\<close> and
  \<^verbatim>\<open>IsAuthenticatedOrReadOnly\<close>; \<^verbatim>\<open>IsHostOrReadOnly\<close> does not override it and
  inherits \<^verbatim>\<open>BasePermission.has_permission\<close>, which returns \<^verbatim>\<open>True\<close>.
\<close>

fun has_permission :: "permission \<Rightarrow> request \<Rightarrow> viewset \<Rightarrow> bool" where
  "has_permission IsAuthenticated req view = is_authenticated (user req)"
| "has_permission IsAuthenticatedOrReadOnly req view =
     (request_method req \<in> set SAFE_METHODS \<or> is_authenticated (user req))"
| "has_permission IsHostOrReadOnly req view = True"

text \<open>
  \<^verbatim>\<open>has_object_permission\<close>: the two framework classes inherit
  \<^verbatim>\<open>BasePermission.has_object_permission\<close>, which returns \<^verbatim>\<open>True\<close>.
\<close>

fun has_object_permission :: "permission \<Rightarrow> request \<Rightarrow> viewset \<Rightarrow> pydict \<Rightarrow> error + bool" where
  "has_object_permission IsHostOrReadOnly req view obj =
     IsHostOrReadOnly_has_object_permission req view obj"
| "has_object_permission IsAuthenticated req view obj = Inr True"
| "has_object_permission IsAuthenticatedOrReadOnly req view obj = Inr True"

text \<open>\<^verbatim>\<open>permission_classes\<close> of the three view sets (\<^verbatim>\<open>views.py\<close>, lines 46, 71, 96).\<close>

fun permission_classes :: "viewset \<Rightarrow> permission list" where
  "permission_classes ListingViewSet = [IsAuthenticatedOrReadOnly, IsHostOrReadOnly]"
| "permission_classes BookingViewSet = [IsAuthenticated]"
| "permission_classes ReviewViewSet = [IsAuthenticated]"

text \<open>
  No view set sets \<^verbatim>\<open>authentication_classes\<close>, so each takes the framework's
  \<^verbatim>\<open>DEFAULT_AUTHENTICATION_CLASSES\<close>, whose default is session then basic
  authentication.
\<close>

definition DEFAULT_AUTHENTICATION_CLASSES :: "authenticator list" where
  "DEFAULT_AUTHENTICATION_CLASSES = [SessionAuthentication, BasicAuthentication]"

fun authentication_classes :: "viewset \<Rightarrow> authenticator list" where
  "authentication_classes view = DEFAULT_AUTHENTICATION_CLASSES"

text \<open>
  \<^verbatim>\<open>APIView.permission_denied\<close>: \<^verbatim>\<open>NotAuthenticated\<close> when the view has
  authenticators and none succeeded, \<^verbatim>\<open>PermissionDenied\<close> otherwise.
\<close>

definition permission_denied :: "viewset \<Rightarrow> request \<Rightarrow> error" where
  "permission_denied view req =
     (if authentication_classes view \<noteq> [] \<and> successful_authenticator req = None
      then NotAuthenticated else PermissionDenied)"

text \<open>
  \<^verbatim>\<open>APIView.check_permissions\<close> and \<^verbatim>\<open>APIView.check_object_permissions\<close>: the
  permissions are asked in order and the first refusal raises.
\<close>

fun check_permissions_loop :: "permission list \<Rightarrow> viewset \<Rightarrow> request \<Rightarrow> error + unit" where
  "check_permissions_loop [] view req = Inr ()"
| "check_permissions_loop (p # ps) view req =
     (if has_permission p req view then check_permissions_loop ps view req
      else Inl (permission_denied view req))"

definition check_permissions :: "viewset \<Rightarrow> request \<Rightarrow> error + unit" where
  "check_permissions view req = check_permissions_loop (permission_classes view) view req"

fun check_object_permissions_loop ::
    "permission list \<Rightarrow> viewset \<Rightarrow> request \<Rightarrow> pydict \<Rightarrow> error + unit" where
  "check_object_permissions_loop [] view req obj = Inr ()"
| "check_object_permissions_loop (p # ps) view req obj =
     (case has_object_permission p req view obj of
        Inl e \<Rightarrow> Inl e
      | Inr ok \<Rightarrow>
          (if ok then check_object_permissions_loop ps view req obj
           else Inl (permission_denied view req)))"

definition check_object_permissions :: "viewset \<Rightarrow> request \<Rightarrow> pydict \<Rightarrow> error + unit" where
  "check_object_permissions view req obj =
     check_object_permissions_loop (permission_classes view) view req obj"

section \<open>The store and the serializers\<close>

datatype model = Listing | Booking | Review

text \<open>
  A table holds the rows of one model in insertion order, keyed by primary key, and the last
  key the sequence gave out. A model instance is the pair of its key and its attributes.
\<close>

record table =
  rows :: "(nat \<times> pydict) list"
  last_id :: nat

type_synonym db = "model \<Rightarrow> table"

text \<open>
  The \<^verbatim>\<open>queryset\<close> of each view set (\<^verbatim>\<open>views.py\<close>, lines 44, 69, 94);
  \<^verbatim>\<open>select_related\<close> pre-joins related rows and selects the same instances.
\<close>

fun queryset :: "viewset \<Rightarrow> model" where
  "queryset ListingViewSet = Listing"
| "queryset BookingViewSet = Booking"
| "queryset ReviewViewSet = Review"

text \<open>\<^verbatim>\<open>Model.objects.create(**attrs)\<close>, \<^verbatim>\<open>instance.save()\<close> and \<^verbatim>\<open>instance.delete()\<close>.\<close>

definition objects_create :: "model \<Rightarrow> pydict \<Rightarrow> db \<Rightarrow> (nat \<times> pydict) \<times> db" where
  "objects_create m attrs db =
     (let pk = Suc (last_id (db m))
      in ((pk, attrs), db(m := \<lparr>rows = rows (db m) @ [(pk, attrs)], last_id = pk\<rparr>)))"

definition instance_save :: "model \<Rightarrow> nat \<times> pydict \<Rightarrow> db \<Rightarrow> db" where
  "instance_save m inst db =
     db(m := (db m)\<lparr>rows := AList.update (fst inst) (snd inst) (rows (db m))\<rparr>)"

definition instance_delete :: "model \<Rightarrow> nat \<times> pydict \<Rightarrow> db \<Rightarrow> db" where
  "instance_delete m inst db =
     db(m := (db m)\<lparr>rows := AList.delete (fst inst) (rows (db m))\<rparr>)"

text \<open>
  \<^verbatim>\<open>{**d, **kw}\<close>: the entries of \<open>kw\<close> replace those of \<open>d\<close> with the same key
  and are appended otherwise.
\<close>

definition dict_merge :: "pydict \<Rightarrow> pydict \<Rightarrow> pydict" where
  "dict_merge d kw = fold (\<lambda>(k, v). AList.update k v) kw d"

text \<open>
  The serializer classes live in \<^verbatim>\<open>listings/serializers.py\<close>. A view set uses two things
  of its serializer: validation of a payload (for an update against the instance, partially
  for \<^verbatim>\<open>PATCH\<close>), which yields \<^verbatim>\<open>validated_data\<close> or fails with a validation error
  (\<open>None\<close>), and the representation of an instance. Both are parameters of the model.
\<close>

record serializer =
  run_validation :: "(nat \<times> pydict) option \<Rightarrow> bool \<Rightarrow> pydict \<Rightarrow> pydict option"
  to_representation :: "nat \<times> pydict \<Rightarrow> pydict"

text \<open>
  \<^verbatim>\<open>BaseSerializer.save(**kwargs)\<close> with \<^verbatim>\<open>ModelSerializer.create\<close> and
  \<^verbatim>\<open>ModelSerializer.update\<close>: the keyword arguments are merged over the validated data;
  without an instance a row is created from the result, with an instance each entry is set
  on the instance, which is then saved.
\<close>

definition serializer_save ::
    "model \<Rightarrow> (nat \<times> pydict) option \<Rightarrow> pydict \<Rightarrow> pydict \<Rightarrow> db \<Rightarrow> (nat \<times> pydict) \<times> db" where
  "serializer_save m inst vd kwargs db =
     (let validated_data = dict_merge vd kwargs
      in case inst of
           None \<Rightarrow> objects_create m validated_data db
         | Some (pk, attrs) \<Rightarrow>
             (let inst' = (pk, dict_merge attrs validated_data)
              in (inst', instance_save m inst' db)))"

section \<open>The view sets\<close>

text \<open>\<^verbatim>\<open>perform_create\<close> of the three view sets (\<^verbatim>\<open>views.py\<close>, lines 48, 73, 98).\<close>

definition ListingViewSet_perform_create ::
    "request \<Rightarrow> pydict \<Rightarrow> db \<Rightarrow> (nat \<times> pydict) \<times> db" where
  "ListingViewSet_perform_create req vd db =
     serializer_save Listing None vd [(''host'', PyUser (user req))] db"

definition BookingViewSet_perform_create ::
    "request \<Rightarrow> pydict \<Rightarrow> db \<Rightarrow> (nat \<times> pydict) \<times> db" where
  "BookingViewSet_perform_create req vd db =
     serializer_save Booking None vd [(''guest'', PyUser (user req))] db"

definition ReviewViewSet_perform_create ::
    "request \<Rightarrow> pydict \<Rightarrow> db \<Rightarrow> (nat \<times> pydict) \<times> db" where
  "ReviewViewSet_perform_create req vd db =
     serializer_save Review None vd [(''user'', PyUser (user req))] db"

fun perform_create :: "viewset \<Rightarrow> request \<Rightarrow> pydict \<Rightarrow> db \<Rightarrow> (nat \<times> pydict) \<times> db" where
  "perform_create ListingViewSet = ListingViewSet_perform_create"
| "perform_create BookingViewSet = BookingViewSet_perform_create"
| "perform_create ReviewViewSet = ReviewViewSet_perform_create"

text \<open>
  No view set overrides \<^verbatim>\<open>perform_update\<close> or \<^verbatim>\<open>perform_destroy\<close>: they are the
  mixins' \<^verbatim>\<open>serializer.save()\<close> and \<^verbatim>\<open>instance.delete()\<close>.
\<close>

definition perform_update ::
    "viewset \<Rightarrow> nat \<times> pydict \<Rightarrow> pydict \<Rightarrow> db \<Rightarrow> (nat \<times> pydict) \<times> db" where
  "perform_update view inst vd db = serializer_save (queryset view) (Some inst) vd [] db"

definition perform_destroy :: "viewset \<Rightarrow> nat \<times> pydict \<Rightarrow> db \<Rightarrow> db" where
  "perform_destroy view inst db = instance_delete (queryset view) inst db"

datatype body = One pydict | Many "pydict list" | NoContent | Metadata

datatype response = Response nat body

text \<open>
  \<^verbatim>\<open>GenericAPIView.get_object\<close>: the row with the key of the URL or \<^verbatim>\<open>Http404\<close>,
  then the object permissions.
\<close>

definition get_object :: "viewset \<Rightarrow> request \<Rightarrow> nat \<Rightarrow> db \<Rightarrow> error + (nat \<times> pydict)" where
  "get_object view req pk db =
     (case map_of (rows (db (queryset view))) pk of
        None \<Rightarrow> Inl Http404
      | Some attrs \<Rightarrow>
          (case check_object_permissions view req attrs of
             Inl e \<Rightarrow> Inl e
           | Inr _ \<Rightarrow> Inr (pk, attrs)))"

text \<open>
  The actions of \<^verbatim>\<open>ModelViewSet\<close>. Each returns the response or the error raised, and
  the store after it. \<open>S\<close> gives each view set its serializer.
\<close>

definition ListModelMixin_list ::
    "(viewset \<Rightarrow> serializer) \<Rightarrow> viewset \<Rightarrow> request \<Rightarrow> db \<Rightarrow> (error + response) \<times> db" where
  "ListModelMixin_list S view req db =
     (Inr (Response 200 (Many (map (to_representation (S view)) (rows (db (queryset view)))))), db)"

definition CreateModelMixin_create ::
    "(viewset \<Rightarrow> serializer) \<Rightarrow> viewset \<Rightarrow> request \<Rightarrow> db \<Rightarrow> (error + response) \<times> db" where
  "CreateModelMixin_create S view req db =
     (case run_validation (S view) None False (data req) of
        None \<Rightarrow> (Inl ValidationError, db)
      | Some vd \<Rightarrow>
          (case perform_create view req vd db of
             (inst, db') \<Rightarrow> (Inr (Response 201 (One (to_representation (S view) inst))), db')))"

definition RetrieveModelMixin_retrieve ::
    "(viewset \<Rightarrow> serializer) \<Rightarrow> viewset \<Rightarrow> request \<Rightarrow> nat \<Rightarrow> db \<Rightarrow> (error + response) \<times> db" where
  "RetrieveModelMixin_retrieve S view req pk db =
     (case get_object view req pk db of
        Inl e \<Rightarrow> (Inl e, db)
      | Inr inst \<Rightarrow> (Inr (Response 200 (One (to_representation (S view) inst))), db))"

definition UpdateModelMixin_update ::
    "(viewset \<Rightarrow> serializer) \<Rightarrow> viewset \<Rightarrow> request \<Rightarrow> nat \<Rightarrow> bool \<Rightarrow> db
      \<Rightarrow> (error + response) \<times> db" where
  "UpdateModelMixin_update S view req pk partial db =
     (case get_object view req pk db of
        Inl e \<Rightarrow> (Inl e, db)
      | Inr inst \<Rightarrow>
          (case run_validation (S view) (Some inst) partial (data req) of
             None \<Rightarrow> (Inl ValidationError, db)
           | Some vd \<Rightarrow>
               (case perform_update view inst vd db of
                  (inst', db') \<Rightarrow>
                    (Inr (Response 200 (One (to_representation (S view) inst'))), db'))))"

definition DestroyModelMixin_destroy ::
    "(viewset \<Rightarrow> serializer) \<Rightarrow> viewset \<Rightarrow> request \<Rightarrow> nat \<Rightarrow> db \<Rightarrow> (error + response) \<times> db" where
  "DestroyModelMixin_destroy S view req pk db =
     (case get_object view req pk db of
        Inl e \<Rightarrow> (Inl e, db)
      | Inr inst \<Rightarrow> (Inr (Response 204 NoContent), perform_destroy view inst db))"

section \<open>Routes and dispatch\<close>

text \<open>
  The two routes a router generates for a registered view set: the list route
  \<^verbatim>\<open>{prefix}/\<close> and the detail route \<^verbatim>\<open>{prefix}/{pk}/\<close>, each with its mapping from
  HTTP method to action.
\<close>

datatype route = list_route | detail_route nat

datatype action =
    A_list | A_create
  | A_retrieve nat | A_update nat | A_partial_update nat | A_destroy nat
  | A_metadata

fun route_mapping :: "route \<Rightarrow> (http_method \<times> action) list" where
  "route_mapping list_route = [(GET, A_list), (POST, A_create)]"
| "route_mapping (detail_route pk) =
     [(GET, A_retrieve pk), (PUT, A_update pk), (PATCH, A_partial_update pk),
      (DELETE, A_destroy pk)]"

text \<open>
  The handler \<^verbatim>\<open>dispatch\<close> finds for a method: the action the route binds to it;
  \<^verbatim>\<open>HEAD\<close> is bound to the handler of \<^verbatim>\<open>GET\<close>; \<^verbatim>\<open>OPTIONS\<close> is the view's
  metadata handler; anything else is \<^verbatim>\<open>http_method_not_allowed\<close> (\<open>None\<close>).
\<close>

fun get_handler :: "(http_method \<times> action) list \<Rightarrow> http_method \<Rightarrow> action option" where
  "get_handler actions OPTIONS = Some A_metadata"
| "get_handler actions HEAD = map_of actions GET"
| "get_handler actions m = map_of actions m"

fun run_action ::
    "(viewset \<Rightarrow> serializer) \<Rightarrow> viewset \<Rightarrow> request \<Rightarrow> db \<Rightarrow> action \<Rightarrow> (error + response) \<times> db" where
  "run_action S view req db A_list = ListModelMixin_list S view req db"
| "run_action S view req db A_create = CreateModelMixin_create S view req db"
| "run_action S view req db (A_retrieve pk) = RetrieveModelMixin_retrieve S view req pk db"
| "run_action S view req db (A_update pk) = UpdateModelMixin_update S view req pk False db"
| "run_action S view req db (A_partial_update pk) = UpdateModelMixin_update S view req pk True db"
| "run_action S view req db (A_destroy pk) = DestroyModelMixin_destroy S view req pk db"
| "run_action S view req db A_metadata = (Inr (Response 200 Metadata), db)"

text \<open>
  \<^verbatim>\<open>APIView.dispatch\<close>: \<^verbatim>\<open>initial\<close> checks the view's permissions first, then the
  handler runs; an exception becomes the error response and leaves the store as it was.
\<close>

definition dispatch ::
    "(viewset \<Rightarrow> serializer) \<Rightarrow> viewset \<Rightarrow> route \<Rightarrow> request \<Rightarrow> db \<Rightarrow> (error + response) \<times> db" where
  "dispatch S view rt req db =
     (case check_permissions view req of
        Inl e \<Rightarrow> (Inl e, db)
      | Inr _ \<Rightarrow>
          (case get_handler (route_mapping rt) (request_method req) of
             None \<Rightarrow> (Inl MethodNotAllowed, db)
           | Some a \<Rightarrow> run_action S view req db a))"

text \<open>
  \<^verbatim>\<open>urls.py\<close>: the router's registry after line 8 holds one entry, and
  \<^verbatim>\<open>urlpatterns\<close> includes the router's URLs at the empty prefix. A URL is
  \<^verbatim>\<open>/{prefix}/\<close> or \<^verbatim>\<open>/{prefix}/{pk}/\<close>; the router's API root view and the
  format-suffix variants are left out.
\<close>

datatype url = CollectionPath string | ItemPath string nat

definition router_registry :: "(string \<times> viewset \<times> string) list" where
  "router_registry = [(''listings'', ListingViewSet, ''listing'')]"

fun resolve :: "(string \<times> viewset \<times> string) list \<Rightarrow> url \<Rightarrow> (viewset \<times> route) option" where
  "resolve [] u = None"
| "resolve ((prefix, view, basename) # registry) (CollectionPath p) =
     (if p = prefix then Some (view, list_route) else resolve registry (CollectionPath p))"
| "resolve ((prefix, view, basename) # registry) (ItemPath p pk) =
     (if p = prefix then Some (view, detail_route pk) else resolve registry (ItemPath p pk))"

definition urlpatterns :: "url \<Rightarrow> (viewset \<times> route) option" where
  "urlpatterns = resolve router_registry"

text \<open>A request to a URL: no matching pattern is a 404, otherwise the view set handles it.\<close>

definition handle_request ::
    "(viewset \<Rightarrow> serializer) \<Rightarrow> url \<Rightarrow> request \<Rightarrow> db \<Rightarrow> (error + response) \<times> db" where
  "handle_request S u req db =
     (case urlpatterns u of
        None \<Rightarrow> (Inl Http404, db)
      | Some (view, rt) \<Rightarrow> dispatch S view rt req db)"

section \<open>Serializers of the listing app\<close>

text \<open>
  Modelled from the spec: \<^verbatim>\<open>ListingSerializer\<close> (\<^verbatim>\<open>listings/serializers.py\<close>, not
  among the sources). The spec says that the payload is validated against the Listing shape,
  whose fields it leaves open (\<open>shape_ok\<close>), and that \<^verbatim>\<open>host\<close> is server-assigned and
  ignored when present in client input.
\<close>

definition ListingSerializer ::
    "(bool \<Rightarrow> pydict \<Rightarrow> bool) \<Rightarrow> (nat \<times> pydict \<Rightarrow> pydict) \<Rightarrow> serializer" where
  "ListingSerializer shape_ok repr =
     \<lparr>run_validation = (\<lambda>inst partial d.
        if shape_ok partial d then Some (AList.delete ''host'' d) else None),
      to_representation = repr\<rparr>"

text \<open>
  Modelled from the spec: \<^verbatim>\<open>ReviewSerializer\<close> (\<^verbatim>\<open>listings/serializers.py\<close>, not
  among the sources). The spec says that \<^verbatim>\<open>rating\<close> must be an integer in [1,5] and is
  rejected with a validation error otherwise, and that \<^verbatim>\<open>user\<close> is server-assigned and
  ignored when present in client input; the validity of the other fields is left open
  (\<open>others_ok\<close>). A partial update may leave the rating out.
\<close>

definition ReviewSerializer ::
    "(bool \<Rightarrow> pydict \<Rightarrow> bool) \<Rightarrow> (nat \<times> pydict \<Rightarrow> pydict) \<Rightarrow> serializer" where
  "ReviewSerializer others_ok repr =
     \<lparr>run_validation = (\<lambda>inst partial d.
        (case map_of d ''rating'' of
           None \<Rightarrow> if partial \<and> others_ok partial d then Some (AList.delete ''user'' d) else None
         | Some (PyInt n) \<Rightarrow>
             if 1 \<le> n \<and> n \<le> 5 \<and> others_ok partial d then Some (AList.delete ''user'' d) else None
         | Some _ \<Rightarrow> None)),
      to_representation = repr\<rparr>"

section \<open>Example requests and an example store\<close>

text \<open>
  A serializer with every field writable and no constraint, which represents an instance by
  its attributes; requests of an anonymous and of a logged-in caller; a store with one
  listing of host 1 and one booking of guest 2.
\<close>

definition accept_all :: serializer where
  "accept_all = \<lparr>run_validation = (\<lambda>inst partial d. Some d), to_representation = snd\<rparr>"

definition anonymous :: "http_method \<Rightarrow> pydict \<Rightarrow> request" where
  "anonymous m d =
     \<lparr>request_method = m, user = AnonymousUser, successful_authenticator = None, data = d\<rparr>"

definition logged_in :: "nat \<Rightarrow> http_method \<Rightarrow> pydict \<Rightarrow> request" where
  "logged_in uid m d =
     \<lparr>request_method = m, user = User uid, successful_authenticator = Some SessionAuthentication,
      data = d\<rparr>"

definition cabin_db :: db where
  "cabin_db m =
     (case m of
        Listing \<Rightarrow>
          \<lparr>rows = [(1, [(''title'', PyStr ''Cabin''), (''price'', PyInt 100),
                        (''host'', PyUser (User 1))])],
           last_id = 1\<rparr>
      | Booking \<Rightarrow>
          \<lparr>rows = [(1, [(''listing'', PyInt 1), (''guest'', PyUser (User 2))])], last_id = 1\<rparr>
      | Review \<Rightarrow> \<lparr>rows = [], last_id = 0\<rparr>)"

section \<open>Auxiliary facts\<close>

lemma dict_merge_Nil: "dict_merge d [] = d"
  by (simp add: dict_merge_def)

lemma map_of_dict_merge_single: "map_of (dict_merge d [(k, v)]) k = Some v"
  by (simp add: dict_merge_def update_conv')

lemma map_of_dict_merge_other:
  "k \<notin> fst ` set kw \<Longrightarrow> map_of (dict_merge d kw) k = map_of d k"
  unfolding dict_merge_def
  by (induction kw arbitrary: d) (auto simp: update_conv')

lemma check_permissions_Listing:
  "check_permissions ListingViewSet req =
     (if request_method req \<in> set SAFE_METHODS \<or> is_authenticated (user req) then Inr ()
      else Inl (permission_denied ListingViewSet req))"
  by (simp add: check_permissions_def)

lemma check_permissions_Booking_Review:
  "view \<noteq> ListingViewSet \<Longrightarrow> check_permissions view req =
     (if is_authenticated (user req) then Inr ()
      else Inl (permission_denied view req))"
  by (cases view) (simp_all add: check_permissions_def)


lemma urlpatterns_listings:
  "urlpatterns (CollectionPath ''listings'') = Some (ListingViewSet, list_route)"
  "urlpatterns (ItemPath ''listings'' pk) = Some (ListingViewSet, detail_route pk)"
  by (simp_all add: urlpatterns_def router_registry_def)

lemma listing_routes:
  "urlpatterns (CollectionPath ''listings'') = Some (ListingViewSet, list_route) \<and>
   urlpatterns (ItemPath ''listings'' pk) = Some (ListingViewSet, detail_route pk) \<and>
   get_handler (route_mapping list_route) GET = Some A_list \<and>
   get_handler (route_mapping list_route) POST = Some A_create \<and>
   get_handler (route_mapping (detail_route pk)) GET = Some (A_retrieve pk) \<and>
   get_handler (route_mapping (detail_route pk)) PUT = Some (A_update pk) \<and>
   get_handler (route_mapping (detail_route pk)) PATCH = Some (A_partial_update pk) \<and>
   get_handler (route_mapping (detail_route pk)) DELETE = Some (A_destroy pk)"
  by (simp add: urlpatterns_listings)

section \<open>Ownership on creation\<close>

text \<open>
  C1. For every authenticated caller \<open>A\<close> and every create request whose payload passes
  validation, whatever the validated data \<open>vd\<close> holds (also an owner field naming another
  user), the request succeeds and the row it appends has the caller as owner: \<^verbatim>\<open>host\<close>
  for a listing, \<^verbatim>\<open>guest\<close> for a booking, \<^verbatim>\<open>user\<close> for a review.
\<close>

theorem create_sets_owner:
  assumes "user req = User A" and "request_method req = POST"
  shows "(run_validation (S ListingViewSet) None False (data req) = Some vd \<longrightarrow>
           (\<exists>pk attrs. dispatch S ListingViewSet list_route req db
               = (Inr (Response 201 (One (to_representation (S ListingViewSet) (pk, attrs)))),
                  db(Listing := \<lparr>rows = rows (db Listing) @ [(pk, attrs)], last_id = pk\<rparr>)) \<and>
              map_of attrs ''host'' = Some (PyUser (User A)))) \<and>
         (run_validation (S BookingViewSet) None False (data req) = Some vd \<longrightarrow>
           (\<exists>pk attrs. dispatch S BookingViewSet list_route req db
               = (Inr (Response 201 (One (to_representation (S BookingViewSet) (pk, attrs)))),
                  db(Booking := \<lparr>rows = rows (db Booking) @ [(pk, attrs)], last_id = pk\<rparr>)) \<and>
              map_of attrs ''guest'' = Some (PyUser (User A)))) \<and>
         (run_validation (S ReviewViewSet) None False (data req) = Some vd \<longrightarrow>
           (\<exists>pk attrs. dispatch S ReviewViewSet list_route req db
               = (Inr (Response 201 (One (to_representation (S ReviewViewSet) (pk, attrs)))),
                  db(Review := \<lparr>rows = rows (db Review) @ [(pk, attrs)], last_id = pk\<rparr>)) \<and>
              map_of attrs ''user'' = Some (PyUser (User A))))"
proof -
  have perm: "check_permissions view req = Inr ()" for view
    using assms by (cases view) (simp_all add: check_permissions_def SAFE_METHODS_def)
  have disp: "dispatch S view list_route req db = CreateModelMixin_create S view req db" for view
    using assms by (simp add: dispatch_def perm)
  have listing: "\<exists>pk attrs. dispatch S ListingViewSet list_route req db
               = (Inr (Response 201 (One (to_representation (S ListingViewSet) (pk, attrs)))),
                  db(Listing := \<lparr>rows = rows (db Listing) @ [(pk, attrs)], last_id = pk\<rparr>)) \<and>
              map_of attrs ''host'' = Some (PyUser (User A))"
    if "run_validation (S ListingViewSet) None False (data req) = Some vd"
  proof (intro exI conjI)
    show "dispatch S ListingViewSet list_route req db
        = (Inr (Response 201 (One (to_representation (S ListingViewSet)
              (Suc (last_id (db Listing)), dict_merge vd [(''host'', PyUser (user req))])))),
           db(Listing := \<lparr>rows = rows (db Listing) @
                [(Suc (last_id (db Listing)), dict_merge vd [(''host'', PyUser (user req))])],
              last_id = Suc (last_id (db Listing))\<rparr>))"
      using that
      by (simp add: disp CreateModelMixin_create_def ListingViewSet_perform_create_def
          serializer_save_def objects_create_def Let_def)
    show "map_of (dict_merge vd [(''host'', PyUser (user req))]) ''host'' = Some (PyUser (User A))"
      using assms by (simp add: map_of_dict_merge_single)
  qed
  have booking: "\<exists>pk attrs. dispatch S BookingViewSet list_route req db
               = (Inr (Response 201 (One (to_representation (S BookingViewSet) (pk, attrs)))),
                  db(Booking := \<lparr>rows = rows (db Booking) @ [(pk, attrs)], last_id = pk\<rparr>)) \<and>
              map_of attrs ''guest'' = Some (PyUser (User A))"
    if "run_validation (S BookingViewSet) None False (data req) = Some vd"
  proof (intro exI conjI)
    show "dispatch S BookingViewSet list_route req db
        = (Inr (Response 201 (One (to_representation (S BookingViewSet)
              (Suc (last_id (db Booking)), dict_merge vd [(''guest'', PyUser (user req))])))),
           db(Booking := \<lparr>rows = rows (db Booking) @
                [(Suc (last_id (db Booking)), dict_merge vd [(''guest'', PyUser (user req))])],
              last_id = Suc (last_id (db Booking))\<rparr>))"
      using that
      by (simp add: disp CreateModelMixin_create_def BookingViewSet_perform_create_def
          serializer_save_def objects_create_def Let_def)
    show "map_of (dict_merge vd [(''guest'', PyUser (user req))]) ''guest'' = Some (PyUser (User A))"
      using assms by (simp add: map_of_dict_merge_single)
  qed
  have review: "\<exists>pk attrs. dispatch S ReviewViewSet list_route req db
               = (Inr (Response 201 (One (to_representation (S ReviewViewSet) (pk, attrs)))),
                  db(Review := \<lparr>rows = rows (db Review) @ [(pk, attrs)], last_id = pk\<rparr>)) \<and>
              map_of attrs ''user'' = Some (PyUser (User A))"
    if "run_validation (S ReviewViewSet) None False (data req) = Some vd"
  proof (intro exI conjI)
    show "dispatch S ReviewViewSet list_route req db
        = (Inr (Response 201 (One (to_representation (S ReviewViewSet)
              (Suc (last_id (db Review)), dict_merge vd [(''user'', PyUser (user req))])))),
           db(Review := \<lparr>rows = rows (db Review) @
                [(Suc (last_id (db Review)), dict_merge vd [(''user'', PyUser (user req))])],
              last_id = Suc (last_id (db Review))\<rparr>))"
      using that
      by (simp add: disp CreateModelMixin_create_def ReviewViewSet_perform_create_def
          serializer_save_def objects_create_def Let_def)
    show "map_of (dict_merge vd [(''user'', PyUser (user req))]) ''user'' = Some (PyUser (User A))"
      using assms by (simp add: map_of_dict_merge_single)
  qed
  from listing booking review show ?thesis by blast
qed

text \<open>
  A listing created by user 1 with \<^verbatim>\<open>host\<close> = user 2 in the payload, through a serializer
  that lets the field through, is stored with host 1.
\<close>

theorem create_sets_owner_witness:
  "user (logged_in 1 POST [(''title'', PyStr ''Hut''), (''host'', PyUser (User 2))]) = User 1 \<and>
   request_method (logged_in 1 POST [(''title'', PyStr ''Hut''), (''host'', PyUser (User 2))]) = POST \<and>
   run_validation accept_all None False
     (data (logged_in 1 POST [(''title'', PyStr ''Hut''), (''host'', PyUser (User 2))]))
     = Some [(''title'', PyStr ''Hut''), (''host'', PyUser (User 2))] \<and>
   (\<exists>pk attrs. dispatch (\<lambda>view. accept_all) ListingViewSet list_route
        (logged_in 1 POST [(''title'', PyStr ''Hut''), (''host'', PyUser (User 2))]) cabin_db
      = (Inr (Response 201 (One (to_representation accept_all (pk, attrs)))),
         cabin_db(Listing := \<lparr>rows = rows (cabin_db Listing) @ [(pk, attrs)], last_id = pk\<rparr>)) \<and>
      map_of attrs ''host'' = Some (PyUser (User 1)))"
  using create_sets_owner
    [of "logged_in 1 POST [(''title'', PyStr ''Hut''), (''host'', PyUser (User 2))]" 1
        "\<lambda>view. accept_all" "[(''title'', PyStr ''Hut''), (''host'', PyUser (User 2))]" cabin_db]
  by (simp add: logged_in_def accept_all_def)

section \<open>The permission gate\<close>

text \<open>
  C2. The shared permission gate: for every request and every object, a safe method is
  allowed; for any other method the check allows the request exactly when the object's
  \<^verbatim>\<open>host\<close> attribute is the caller. It never raises.
\<close>

theorem has_object_permission_gate:
  "(request_method req \<in> set SAFE_METHODS \<longrightarrow>
      IsHostOrReadOnly_has_object_permission req view obj = Inr True) \<and>
   (request_method req \<notin> set SAFE_METHODS \<longrightarrow>
      IsHostOrReadOnly_has_object_permission req view obj
        = Inr (map_of obj ''host'' = Some (PyUser (user req))))"
  by (auto simp: IsHostOrReadOnly_has_object_permission_def getattr_def split: option.splits)

theorem has_object_permission_gate_witness:
  "GET \<in> set SAFE_METHODS \<and> DELETE \<notin> set SAFE_METHODS \<and>
   IsHostOrReadOnly_has_object_permission
     \<lparr>request_method = GET, user = AnonymousUser, successful_authenticator = None, data = []\<rparr>
     ListingViewSet [(''host'', PyUser (User 1))] = Inr True \<and>
   IsHostOrReadOnly_has_object_permission
     \<lparr>request_method = DELETE, user = User 1,
      successful_authenticator = Some SessionAuthentication, data = []\<rparr>
     ListingViewSet [(''host'', PyUser (User 1))] = Inr True \<and>
   IsHostOrReadOnly_has_object_permission
     \<lparr>request_method = DELETE, user = User 2,
      successful_authenticator = Some SessionAuthentication, data = []\<rparr>
     ListingViewSet [(''host'', PyUser (User 1))] = Inr False"
  using has_object_permission_gate
      [of "\<lparr>request_method = GET, user = AnonymousUser, successful_authenticator = None, data = []\<rparr>"
          ListingViewSet "[(''host'', PyUser (User 1))]"]
    has_object_permission_gate
      [of "\<lparr>request_method = DELETE, user = User 1,
            successful_authenticator = Some SessionAuthentication, data = []\<rparr>"
          ListingViewSet "[(''host'', PyUser (User 1))]"]
    has_object_permission_gate
      [of "\<lparr>request_method = DELETE, user = User 2,
            successful_authenticator = Some SessionAuthentication, data = []\<rparr>"
          ListingViewSet "[(''host'', PyUser (User 1))]"]
  by (simp add: SAFE_METHODS_def)

section \<open>Routing\<close>

text \<open>
  C3. The registry holds the listing view set only: \<^verbatim>\<open>/bookings/\<close>,
  \<^verbatim>\<open>/bookings/{pk}/\<close>, \<^verbatim>\<open>/reviews/\<close> and \<^verbatim>\<open>/reviews/{pk}/\<close> match no URL pattern,
  and a request to them is answered with a 404 whatever its method and caller, instead of
  reaching \<^verbatim>\<open>BookingViewSet\<close> or \<^verbatim>\<open>ReviewViewSet\<close>.
\<close>

theorem bookings_reviews_not_routed:
  "urlpatterns (CollectionPath ''bookings'') = None \<and>
   urlpatterns (ItemPath ''bookings'' pk) = None \<and>
   urlpatterns (CollectionPath ''reviews'') = None \<and>
   urlpatterns (ItemPath ''reviews'' pk) = None \<and>
   handle_request S (CollectionPath ''bookings'') req db = (Inl Http404, db) \<and>
   handle_request S (CollectionPath ''reviews'') req db = (Inl Http404, db)"
  by (simp add: handle_request_def urlpatterns_def router_registry_def)

section \<open>Authentication\<close>

text \<open>
  C4. On listings, \<^verbatim>\<open>GET\<close> of the collection and of an existing item succeeds for every
  caller, authenticated or not. A write needs an authenticated caller and, on an item, the
  ownership check on top of it: for a caller who is not authenticated, \<^verbatim>\<open>POST\<close> on the
  collection and \<^verbatim>\<open>PUT\<close>, \<^verbatim>\<open>PATCH\<close> and \<^verbatim>\<open>DELETE\<close> on an item fail with
  \<^verbatim>\<open>NotAuthenticated\<close> or \<^verbatim>\<open>PermissionDenied\<close>; for an authenticated caller who is
  not the host of an existing listing, \<^verbatim>\<open>PUT\<close>, \<^verbatim>\<open>PATCH\<close> and \<^verbatim>\<open>DELETE\<close> on it are
  refused by \<^verbatim>\<open>permission_denied\<close> (\<^verbatim>\<open>PermissionDenied\<close> for a caller an authenticator
  recognised); each refusal leaves the store unchanged. The host's \<^verbatim>\<open>DELETE\<close> succeeds.
  So a write that succeeds was made by an authenticated caller, and on an existing item by
  its host.
\<close>

theorem listing_read_write_access:
  "(request_method req = GET \<longrightarrow>
      handle_request S (CollectionPath ''listings'') req db
        = (Inr (Response 200 (Many (map (to_representation (S ListingViewSet)) (rows (db Listing))))), db)) \<and>
   (request_method req = GET \<and> map_of (rows (db Listing)) pk = Some attrs \<longrightarrow>
      handle_request S (ItemPath ''listings'' pk) req db
        = (Inr (Response 200 (One (to_representation (S ListingViewSet) (pk, attrs)))), db)) \<and>
   (\<not> is_authenticated (user req) \<and> request_method req = POST \<longrightarrow>
      handle_request S (CollectionPath ''listings'') req db
        \<in> {(Inl NotAuthenticated, db), (Inl PermissionDenied, db)}) \<and>
   (\<not> is_authenticated (user req) \<and> request_method req \<in> {PUT, PATCH, DELETE} \<longrightarrow>
      handle_request S (ItemPath ''listings'' pk) req db
        \<in> {(Inl NotAuthenticated, db), (Inl PermissionDenied, db)}) \<and>
   (is_authenticated (user req) \<and> request_method req \<in> {PUT, PATCH, DELETE} \<and>
    map_of (rows (db Listing)) pk = Some attrs \<and>
    map_of attrs ''host'' \<noteq> Some (PyUser (user req)) \<longrightarrow>
      handle_request S (ItemPath ''listings'' pk) req db
        = (Inl (if successful_authenticator req = None then NotAuthenticated
                else PermissionDenied), db)) \<and>
   (is_authenticated (user req) \<and> request_method req = DELETE \<and>
    map_of (rows (db Listing)) pk = Some attrs \<and>
    map_of attrs ''host'' = Some (PyUser (user req)) \<longrightarrow>
      handle_request S (ItemPath ''listings'' pk) req db
        = (Inr (Response 204 NoContent), instance_delete Listing (pk, attrs) db)) \<and>
   (request_method req = POST \<and>
    handle_request S (CollectionPath ''listings'') req db = (Inr resp, db') \<longrightarrow>
      is_authenticated (user req)) \<and>
   (request_method req \<in> {PUT, PATCH, DELETE} \<and>
    map_of (rows (db Listing)) pk = Some attrs \<and>
    handle_request S (ItemPath ''listings'' pk) req db = (Inr resp, db') \<longrightarrow>
      is_authenticated (user req) \<and> map_of attrs ''host'' = Some (PyUser (user req)))"
proof -
  have safe: "request_method req = GET \<Longrightarrow> request_method req \<in> set SAFE_METHODS"
    by (simp add: SAFE_METHODS_def)
  have unsafe: "request_method req \<in> {POST, PUT, PATCH, DELETE} \<Longrightarrow> request_method req \<notin> set SAFE_METHODS"
    by (auto simp: SAFE_METHODS_def)
  have denied: "permission_denied ListingViewSet req \<in> {NotAuthenticated, PermissionDenied}"
    by (simp add: permission_denied_def)
  have coll: "request_method req = GET \<Longrightarrow>
      handle_request S (CollectionPath ''listings'') req db
        = (Inr (Response 200 (Many (map (to_representation (S ListingViewSet)) (rows (db Listing))))), db)"
    using safe
    by (simp add: handle_request_def urlpatterns_listings dispatch_def
        check_permissions_Listing ListModelMixin_list_def)
  have item: "request_method req = GET \<Longrightarrow> map_of (rows (db Listing)) pk = Some attrs \<Longrightarrow>
      handle_request S (ItemPath ''listings'' pk) req db
        = (Inr (Response 200 (One (to_representation (S ListingViewSet) (pk, attrs)))), db)"
    using safe
    by (simp add: handle_request_def urlpatterns_listings dispatch_def
        check_permissions_Listing RetrieveModelMixin_retrieve_def get_object_def
        check_object_permissions_def IsHostOrReadOnly_has_object_permission_def)
  have post: "\<not> is_authenticated (user req) \<Longrightarrow> request_method req = POST \<Longrightarrow>
      handle_request S (CollectionPath ''listings'') req db
        \<in> {(Inl NotAuthenticated, db), (Inl PermissionDenied, db)}"
    using unsafe denied
    by (simp add: handle_request_def urlpatterns_listings dispatch_def
        check_permissions_Listing)
  have modify: "\<not> is_authenticated (user req) \<Longrightarrow> request_method req \<in> {PUT, PATCH, DELETE} \<Longrightarrow>
      handle_request S (ItemPath ''listings'' pk) req db
        \<in> {(Inl NotAuthenticated, db), (Inl PermissionDenied, db)}"
    using unsafe denied
    by (auto simp: handle_request_def urlpatterns_listings dispatch_def
        check_permissions_Listing)
  have refused: "get_object ListingViewSet req pk db = Inl (permission_denied ListingViewSet req)"
    if "request_method req \<in> {PUT, PATCH, DELETE}"
      and "map_of (rows (db Listing)) pk = Some attrs"
      and "map_of attrs ''host'' \<noteq> Some (PyUser (user req))"
    using that unsafe
    by (auto simp: get_object_def check_object_permissions_def
        IsHostOrReadOnly_has_object_permission_def getattr_def split: option.splits)
  have stranger: "handle_request S (ItemPath ''listings'' pk) req db
        = (Inl (if successful_authenticator req = None then NotAuthenticated
                else PermissionDenied), db)"
    if "is_authenticated (user req)" and "request_method req \<in> {PUT, PATCH, DELETE}"
      and "map_of (rows (db Listing)) pk = Some attrs"
      and "map_of attrs ''host'' \<noteq> Some (PyUser (user req))"
    using that refused [OF that(2,3,4)]
    by (auto simp: handle_request_def urlpatterns_listings dispatch_def
        check_permissions_Listing UpdateModelMixin_update_def DestroyModelMixin_destroy_def
        permission_denied_def DEFAULT_AUTHENTICATION_CLASSES_def)
  have owner: "handle_request S (ItemPath ''listings'' pk) req db
        = (Inr (Response 204 NoContent), instance_delete Listing (pk, attrs) db)"
    if "is_authenticated (user req)" and "request_method req = DELETE"
      and "map_of (rows (db Listing)) pk = Some attrs"
      and "map_of attrs ''host'' = Some (PyUser (user req))"
    using that
    by (simp add: handle_request_def urlpatterns_listings dispatch_def
        check_permissions_Listing DestroyModelMixin_destroy_def get_object_def
        check_object_permissions_def IsHostOrReadOnly_has_object_permission_def getattr_def
        SAFE_METHODS_def perform_destroy_def)
  have created: "is_authenticated (user req)"
    if "request_method req = POST"
      and "handle_request S (CollectionPath ''listings'') req db = (Inr resp, db')"
    using that post by auto
  have written: "is_authenticated (user req) \<and> map_of attrs ''host'' = Some (PyUser (user req))"
    if "request_method req \<in> {PUT, PATCH, DELETE}"
      and "map_of (rows (db Listing)) pk = Some attrs"
      and "handle_request S (ItemPath ''listings'' pk) req db = (Inr resp, db')"
  proof (intro conjI)
    show auth: "is_authenticated (user req)"
      using that modify by auto
    show "map_of attrs ''host'' = Some (PyUser (user req))"
      using that stranger [OF auth that(1,2)] by auto
  qed
  from coll item post modify stranger owner created written show ?thesis by blast
qed

theorem listing_read_write_access_witness:
  "request_method (anonymous GET []) = GET \<and>
   map_of (rows (cabin_db Listing)) 1
     = Some [(''title'', PyStr ''Cabin''), (''price'', PyInt 100), (''host'', PyUser (User 1))] \<and>
   \<not> is_authenticated (user (anonymous POST [(''title'', PyStr ''Hut'')])) \<and>
   request_method (anonymous POST [(''title'', PyStr ''Hut'')]) = POST \<and>
   \<not> is_authenticated (user (anonymous DELETE [])) \<and>
   request_method (anonymous DELETE []) \<in> {PUT, PATCH, DELETE} \<and>
   is_authenticated (user (logged_in 2 DELETE [])) \<and>
   request_method (logged_in 2 DELETE []) \<in> {PUT, PATCH, DELETE} \<and>
   map_of [(''title'', PyStr ''Cabin''), (''price'', PyInt 100), (''host'', PyUser (User 1))] ''host''
     \<noteq> Some (PyUser (user (logged_in 2 DELETE []))) \<and>
   is_authenticated (user (logged_in 1 DELETE [])) \<and>
   request_method (logged_in 1 DELETE []) = DELETE \<and>
   map_of [(''title'', PyStr ''Cabin''), (''price'', PyInt 100), (''host'', PyUser (User 1))] ''host''
     = Some (PyUser (user (logged_in 1 DELETE []))) \<and>
   request_method (logged_in 1 POST [(''title'', PyStr ''Hut'')]) = POST \<and>
   handle_request (\<lambda>view. accept_all) (CollectionPath ''listings'') (anonymous GET []) cabin_db
     = (Inr (Response 200 (Many
         [[(''title'', PyStr ''Cabin''), (''price'', PyInt 100), (''host'', PyUser (User 1))]])),
        cabin_db) \<and>
   handle_request (\<lambda>view. accept_all) (ItemPath ''listings'' 1) (anonymous GET []) cabin_db
     = (Inr (Response 200 (One
         [(''title'', PyStr ''Cabin''), (''price'', PyInt 100), (''host'', PyUser (User 1))])),
        cabin_db) \<and>
   handle_request (\<lambda>view. accept_all) (CollectionPath ''listings'')
       (anonymous POST [(''title'', PyStr ''Hut'')]) cabin_db
     \<in> {(Inl NotAuthenticated, cabin_db), (Inl PermissionDenied, cabin_db)} \<and>
   handle_request (\<lambda>view. accept_all) (ItemPath ''listings'' 1) (anonymous DELETE []) cabin_db
     \<in> {(Inl NotAuthenticated, cabin_db), (Inl PermissionDenied, cabin_db)} \<and>
   handle_request (\<lambda>view. accept_all) (ItemPath ''listings'' 1) (logged_in 2 DELETE []) cabin_db
     = (Inl PermissionDenied, cabin_db) \<and>
   handle_request (\<lambda>view. accept_all) (ItemPath ''listings'' 1) (logged_in 1 DELETE []) cabin_db
     = (Inr (Response 204 NoContent),
        instance_delete Listing
          (1, [(''title'', PyStr ''Cabin''), (''price'', PyInt 100), (''host'', PyUser (User 1))])
          cabin_db) \<and>
   handle_request (\<lambda>view. accept_all) (CollectionPath ''listings'')
       (logged_in 1 POST [(''title'', PyStr ''Hut'')]) cabin_db
     = (Inr (Response 201 (One [(''title'', PyStr ''Hut''), (''host'', PyUser (User 1))])),
        cabin_db(Listing := \<lparr>rows = rows (cabin_db Listing) @
            [(2, [(''title'', PyStr ''Hut''), (''host'', PyUser (User 1))])], last_id = 2\<rparr>)) \<and>
   is_authenticated (user (logged_in 1 POST [(''title'', PyStr ''Hut'')]))"
proof -
  let ?cabin = "[(''title'', PyStr ''Cabin''), (''price'', PyInt 100), (''host'', PyUser (User 1))]"
  have created: "handle_request (\<lambda>view. accept_all) (CollectionPath ''listings'')
       (logged_in 1 POST [(''title'', PyStr ''Hut'')]) cabin_db
     = (Inr (Response 201 (One [(''title'', PyStr ''Hut''), (''host'', PyUser (User 1))])),
        cabin_db(Listing := \<lparr>rows = rows (cabin_db Listing) @
            [(2, [(''title'', PyStr ''Hut''), (''host'', PyUser (User 1))])], last_id = 2\<rparr>))"
    by (simp add: handle_request_def urlpatterns_def router_registry_def dispatch_def
        check_permissions_def CreateModelMixin_create_def ListingViewSet_perform_create_def
        serializer_save_def objects_create_def dict_merge_def Let_def
        logged_in_def accept_all_def cabin_db_def numeral_2_eq_2)
  show ?thesis
    using created
      listing_read_write_access
        [of "anonymous GET []" "\<lambda>view. accept_all" cabin_db 1 ?cabin]
      listing_read_write_access
        [of "anonymous POST [(''title'', PyStr ''Hut'')]" "\<lambda>view. accept_all" cabin_db 1 "[]"]
      listing_read_write_access
        [of "anonymous DELETE []" "\<lambda>view. accept_all" cabin_db 1 "[]"]
      listing_read_write_access
        [of "logged_in 2 DELETE []" "\<lambda>view. accept_all" cabin_db 1 ?cabin]
      listing_read_write_access
        [of "logged_in 1 DELETE []" "\<lambda>view. accept_all" cabin_db 1 ?cabin
            "Response 204 NoContent" "instance_delete Listing (1, ?cabin) cabin_db"]
      listing_read_write_access
        [of "logged_in 1 POST [(''title'', PyStr ''Hut'')]" "\<lambda>view. accept_all" cabin_db 1 "[]"
            "Response 201 (One [(''title'', PyStr ''Hut''), (''host'', PyUser (User 1))])"
            "cabin_db(Listing := \<lparr>rows = rows (cabin_db Listing) @
               [(2, [(''title'', PyStr ''Hut''), (''host'', PyUser (User 1))])], last_id = 2\<rparr>)"]
    by (simp add: anonymous_def logged_in_def accept_all_def cabin_db_def)
qed

text \<open>
  C5. On the booking and the review view set every operation (every route, every method,
  list and retrieve included) fails with \<^verbatim>\<open>NotAuthenticated\<close> for a caller whom no
  authenticator recognised, and an authenticated caller passes the permission check of the
  view.
\<close>

theorem booking_review_require_authentication:
  assumes "view = BookingViewSet \<or> view = ReviewViewSet"
  shows "(\<not> is_authenticated (user req) \<and> successful_authenticator req = None \<longrightarrow>
            dispatch S view rt req db = (Inl NotAuthenticated, db)) \<and>
         (is_authenticated (user req) \<longrightarrow> check_permissions view req = Inr ())"
  using assms
  by (auto simp: dispatch_def check_permissions_Booking_Review permission_denied_def
      DEFAULT_AUTHENTICATION_CLASSES_def)

theorem booking_review_require_authentication_witness:
  "(BookingViewSet = BookingViewSet \<or> BookingViewSet = ReviewViewSet) \<and>
   \<not> is_authenticated (user (anonymous GET [])) \<and>
   successful_authenticator (anonymous GET []) = None \<and>
   is_authenticated (user (logged_in 2 GET [])) \<and>
   dispatch (\<lambda>view. accept_all) BookingViewSet list_route (anonymous GET []) cabin_db
     = (Inl NotAuthenticated, cabin_db) \<and>
   check_permissions BookingViewSet (logged_in 2 GET []) = Inr ()"
  using booking_review_require_authentication
      [of BookingViewSet "anonymous GET []" "\<lambda>view. accept_all" list_route cabin_db]
    booking_review_require_authentication
      [of BookingViewSet "logged_in 2 GET []" "\<lambda>view. accept_all" list_route cabin_db]
  by (simp add: anonymous_def logged_in_def)

section \<open>Validation of a review's rating\<close>

text \<open>
  C6. A create request for a review by an authenticated caller: when the payload's rating is
  not an integer from 1 to 5 the request fails with a validation error and the store is
  unchanged; when it is, and the rest of the payload is valid, the request succeeds with
  status 201 and appends one row, which carries the rating.
\<close>

theorem review_rating_validated:
  assumes "is_authenticated (user req)" and "request_method req = POST"
  shows "((\<nexists>n. map_of (data req) ''rating'' = Some (PyInt n) \<and> 1 \<le> n \<and> n \<le> 5) \<longrightarrow>
            dispatch (S(ReviewViewSet := ReviewSerializer others_ok repr)) ReviewViewSet
              list_route req db = (Inl ValidationError, db)) \<and>
         ((\<exists>n. map_of (data req) ''rating'' = Some (PyInt n) \<and> 1 \<le> n \<and> n \<le> 5) \<and>
            others_ok False (data req) \<longrightarrow>
            (\<exists>pk attrs. dispatch (S(ReviewViewSet := ReviewSerializer others_ok repr))
                ReviewViewSet list_route req db
              = (Inr (Response 201 (One (repr (pk, attrs)))),
                 db(Review := \<lparr>rows = rows (db Review) @ [(pk, attrs)], last_id = pk\<rparr>)) \<and>
              map_of attrs ''rating'' = map_of (data req) ''rating''))"
proof -
  let ?S = "S(ReviewViewSet := ReviewSerializer others_ok repr)"
  have perm: "check_permissions ReviewViewSet req = Inr ()"
    using assms by (simp add: check_permissions_def)
  have disp: "dispatch ?S ReviewViewSet list_route req db
      = CreateModelMixin_create ?S ReviewViewSet req db"
    using assms by (simp add: dispatch_def perm)
  have bad: "dispatch ?S ReviewViewSet list_route req db = (Inl ValidationError, db)"
    if "\<nexists>n. map_of (data req) ''rating'' = Some (PyInt n) \<and> 1 \<le> n \<and> n \<le> 5"
    using that unfolding disp
    by (auto simp: CreateModelMixin_create_def ReviewSerializer_def
        split: option.splits pyval.splits)
  have good: "\<exists>pk attrs. dispatch ?S ReviewViewSet list_route req db
              = (Inr (Response 201 (One (repr (pk, attrs)))),
                 db(Review := \<lparr>rows = rows (db Review) @ [(pk, attrs)], last_id = pk\<rparr>)) \<and>
              map_of attrs ''rating'' = map_of (data req) ''rating''"
    if "\<exists>n. map_of (data req) ''rating'' = Some (PyInt n) \<and> 1 \<le> n \<and> n \<le> 5"
      and "others_ok False (data req)"
  proof -
    from that obtain n where n: "map_of (data req) ''rating'' = Some (PyInt n)" "1 \<le> n" "n \<le> 5"
      by blast
    let ?attrs = "dict_merge (AList.delete ''user'' (data req)) [(''user'', PyUser (user req))]"
    let ?pk = "Suc (last_id (db Review))"
    have "dispatch ?S ReviewViewSet list_route req db
              = (Inr (Response 201 (One (repr (?pk, ?attrs)))),
                 db(Review := \<lparr>rows = rows (db Review) @ [(?pk, ?attrs)], last_id = ?pk\<rparr>))"
      unfolding disp using n that(2)
      by (simp add: CreateModelMixin_create_def ReviewSerializer_def
          ReviewViewSet_perform_create_def serializer_save_def objects_create_def Let_def)
    moreover have "map_of ?attrs ''rating'' = map_of (data req) ''rating''"
      by (simp add: dict_merge_def update_conv' delete_conv')
    ultimately show ?thesis by blast
  qed
  from bad good show ?thesis by blast
qed

theorem review_rating_validated_witness:
  "is_authenticated (user (logged_in 2 POST [(''listing'', PyInt 1), (''rating'', PyInt 6)])) \<and>
   request_method (logged_in 2 POST [(''listing'', PyInt 1), (''rating'', PyInt 6)]) = POST \<and>
   (\<nexists>n. map_of (data (logged_in 2 POST [(''listing'', PyInt 1), (''rating'', PyInt 6)])) ''rating''
          = Some (PyInt n) \<and> 1 \<le> n \<and> n \<le> 5) \<and>
   dispatch ((\<lambda>view. accept_all)(ReviewViewSet := ReviewSerializer (\<lambda>partial d. True) snd))
       ReviewViewSet list_route
       (logged_in 2 POST [(''listing'', PyInt 1), (''rating'', PyInt 6)]) cabin_db
     = (Inl ValidationError, cabin_db) \<and>
   is_authenticated (user (logged_in 2 POST [(''listing'', PyInt 1), (''rating'', PyInt 5)])) \<and>
   request_method (logged_in 2 POST [(''listing'', PyInt 1), (''rating'', PyInt 5)]) = POST \<and>
   (\<exists>n. map_of (data (logged_in 2 POST [(''listing'', PyInt 1), (''rating'', PyInt 5)])) ''rating''
          = Some (PyInt n) \<and> 1 \<le> n \<and> n \<le> 5) \<and>
   (\<exists>pk attrs.
      dispatch ((\<lambda>view. accept_all)(ReviewViewSet := ReviewSerializer (\<lambda>partial d. True) snd))
        ReviewViewSet list_route
        (logged_in 2 POST [(''listing'', PyInt 1), (''rating'', PyInt 5)]) cabin_db
      = (Inr (Response 201 (One (snd (pk, attrs)))),
         cabin_db(Review := \<lparr>rows = rows (cabin_db Review) @ [(pk, attrs)], last_id = pk\<rparr>)) \<and>
      map_of attrs ''rating'' = Some (PyInt 5))"
  using review_rating_validated
      [of "logged_in 2 POST [(''listing'', PyInt 1), (''rating'', PyInt 6)]"
          "\<lambda>view. accept_all" "\<lambda>partial d. True" snd cabin_db]
    review_rating_validated
      [of "logged_in 2 POST [(''listing'', PyInt 1), (''rating'', PyInt 5)]"
          "\<lambda>view. accept_all" "\<lambda>partial d. True" snd cabin_db]
  by (simp add: logged_in_def)

section \<open>Updates\<close>

text \<open>
  C7. A successful \<^verbatim>\<open>PUT\<close> or \<^verbatim>\<open>PATCH\<close> of an existing listing leaves its
  \<^verbatim>\<open>host\<close> as it was, whatever the payload holds.
\<close>

theorem listing_host_immutable:
  assumes "request_method req = PUT \<or> request_method req = PATCH"
    and "map_of (rows (db Listing)) pk = Some attrs"
    and "handle_request (S(ListingViewSet := ListingSerializer shape_ok repr))
           (ItemPath ''listings'' pk) req db = (Inr resp, db')"
  shows "\<exists>attrs'. map_of (rows (db' Listing)) pk = Some attrs' \<and>
           map_of attrs' ''host'' = map_of attrs ''host''"
proof -
  have nohost: "''host'' \<notin> fst ` set (AList.delete ''host'' d)" for d :: pydict
    by (rule delete_notin_dom)
  show ?thesis
    using assms
    by (auto simp: handle_request_def urlpatterns_listings dispatch_def
        UpdateModelMixin_update_def get_object_def perform_update_def serializer_save_def
        instance_save_def ListingSerializer_def dict_merge_Nil update_conv'
        map_of_dict_merge_other [OF nohost]
        split: sum.splits option.splits if_splits)
qed

theorem listing_host_immutable_witness:
  "(request_method (logged_in 1 PATCH [(''title'', PyStr ''Lodge''), (''host'', PyUser (User 2))]) = PUT \<or>
    request_method (logged_in 1 PATCH [(''title'', PyStr ''Lodge''), (''host'', PyUser (User 2))]) = PATCH) \<and>
   map_of (rows (cabin_db Listing)) 1
     = Some [(''title'', PyStr ''Cabin''), (''price'', PyInt 100), (''host'', PyUser (User 1))] \<and>
   handle_request ((\<lambda>view. accept_all)(ListingViewSet := ListingSerializer (\<lambda>partial d. True) snd))
       (ItemPath ''listings'' 1)
       (logged_in 1 PATCH [(''title'', PyStr ''Lodge''), (''host'', PyUser (User 2))]) cabin_db
     = (Inr (Response 200 (One
          [(''title'', PyStr ''Lodge''), (''price'', PyInt 100), (''host'', PyUser (User 1))])),
        cabin_db(Listing := \<lparr>rows = [(1, [(''title'', PyStr ''Lodge''), (''price'', PyInt 100),
                                       (''host'', PyUser (User 1))])], last_id = 1\<rparr>)) \<and>
   (\<exists>attrs'. map_of (rows ((cabin_db(Listing := \<lparr>rows = [(1, [(''title'', PyStr ''Lodge''),
                  (''price'', PyInt 100), (''host'', PyUser (User 1))])], last_id = 1\<rparr>)) Listing)) 1
        = Some attrs' \<and>
      map_of attrs' ''host''
        = map_of [(''title'', PyStr ''Cabin''), (''price'', PyInt 100), (''host'', PyUser (User 1))]
            ''host'')"
proof -
  let ?req = "logged_in 1 PATCH [(''title'', PyStr ''Lodge''), (''host'', PyUser (User 2))]"
  let ?old = "[(''title'', PyStr ''Cabin''), (''price'', PyInt 100), (''host'', PyUser (User 1))]"
  let ?db' = "cabin_db(Listing := \<lparr>rows = [(1, [(''title'', PyStr ''Lodge''),
                  (''price'', PyInt 100), (''host'', PyUser (User 1))])], last_id = 1\<rparr>)"
  have m: "request_method ?req = PUT \<or> request_method ?req = PATCH"
    by (simp add: logged_in_def)
  have l: "map_of (rows (cabin_db Listing)) 1 = Some ?old"
    by (simp add: cabin_db_def)
  have r: "handle_request ((\<lambda>view. accept_all)(ListingViewSet := ListingSerializer (\<lambda>partial d. True) snd))
       (ItemPath ''listings'' 1) ?req cabin_db
     = (Inr (Response 200 (One
          [(''title'', PyStr ''Lodge''), (''price'', PyInt 100), (''host'', PyUser (User 1))])), ?db')"
    by (simp add: handle_request_def urlpatterns_def router_registry_def dispatch_def
        check_permissions_def UpdateModelMixin_update_def get_object_def
        check_object_permissions_def IsHostOrReadOnly_has_object_permission_def getattr_def
        SAFE_METHODS_def perform_update_def serializer_save_def instance_save_def
        ListingSerializer_def dict_merge_def Let_def logged_in_def cabin_db_def)
  show ?thesis
    using m l r listing_host_immutable [OF m l r] by blast
qed



section \<open>Reads\<close>

text \<open>
  C9. Retrieving a listing leaves the store as it is, and retrieving it again returns the
  same result.
\<close>

theorem retrieve_idempotent:
  assumes "request_method req = GET"
    and "handle_request S (ItemPath ''listings'' pk) req db = (res, db')"
  shows "db' = db \<and> handle_request S (ItemPath ''listings'' pk) req db' = (res, db')"
  using assms
  by (auto simp: handle_request_def urlpatterns_listings dispatch_def
      RetrieveModelMixin_retrieve_def split: sum.splits)

theorem retrieve_idempotent_witness:
  "request_method (anonymous GET []) = GET \<and>
   handle_request (\<lambda>view. accept_all) (ItemPath ''listings'' 1) (anonymous GET []) cabin_db
     = (Inr (Response 200 (One
         [(''title'', PyStr ''Cabin''), (''price'', PyInt 100), (''host'', PyUser (User 1))])),
        cabin_db) \<and>
   handle_request (\<lambda>view. accept_all) (ItemPath ''listings'' 1) (anonymous GET [])
       (snd (handle_request (\<lambda>view. accept_all) (ItemPath ''listings'' 1) (anonymous GET [])
          cabin_db))
     = handle_request (\<lambda>view. accept_all) (ItemPath ''listings'' 1) (anonymous GET []) cabin_db"
proof -
  have m: "request_method (anonymous GET []) = GET"
    by (simp add: anonymous_def)
  have r: "handle_request (\<lambda>view. accept_all) (ItemPath ''listings'' 1) (anonymous GET []) cabin_db
     = (Inr (Response 200 (One
         [(''title'', PyStr ''Cabin''), (''price'', PyInt 100), (''host'', PyUser (User 1))])),
        cabin_db)"
    by (simp add: handle_request_def urlpatterns_def router_registry_def dispatch_def
        check_permissions_def RetrieveModelMixin_retrieve_def get_object_def
        check_object_permissions_def IsHostOrReadOnly_has_object_permission_def
        SAFE_METHODS_def anonymous_def accept_all_def cabin_db_def)
  show ?thesis
    using m r retrieve_idempotent [OF m r] by simp
qed

section \<open>Objects without a host\<close>

text \<open>
  C10. The ownership check is total over arbitrary objects: for an object without a
  \<^verbatim>\<open>host\<close> attribute and a request with an unsafe method the check raises nothing
  and returns \<^verbatim>\<open>False\<close>.
\<close>

theorem has_object_permission_no_host:
  assumes "map_of obj ''host'' = None" and "request_method req \<notin> set SAFE_METHODS"
  shows "IsHostOrReadOnly_has_object_permission req view obj = Inr False"
  using assms by (simp add: IsHostOrReadOnly_has_object_permission_def getattr_def)

theorem has_object_permission_no_host_witness:
  "map_of [(''guest'', PyUser (User 7))] ''host'' = None \<and> POST \<notin> set SAFE_METHODS \<and>
   IsHostOrReadOnly_has_object_permission
     \<lparr>request_method = POST, user = User 7,
      successful_authenticator = Some BasicAuthentication, data = []\<rparr>
     BookingViewSet [(''guest'', PyUser (User 7))] = Inr False"
proof -
  have h: "map_of [(''guest'', PyUser (User 7))] ''host'' = None" by simp
  have m: "request_method \<lparr>request_method = POST, user = User 7,
      successful_authenticator = Some BasicAuthentication, data = []\<rparr> \<notin> set SAFE_METHODS"
    by (simp add: SAFE_METHODS_def)
  show ?thesis
    using h m has_object_permission_no_host [OF h m, of BookingViewSet]
    by (simp add: SAFE_METHODS_def)
qed

end
